theory Spec2Isabelle
  imports Main
begin

section \<open>Python values that the handlers of \<open>app.py\<close> touch\<close>

text \<open>
  The value that \<open>response.json()\<close> returns is a Python object built from dicts, lists,
  strings, numbers, booleans and \<open>None\<close>. A dict is kept as the list of its items and read
  with \<open>map_of\<close>; a float is kept as its literal, since no handler computes with one.
\<close>

datatype json =
    JNull
  | JBool bool
  | JInt int
  | JFloat string
  | JStr string
  | JArr "json list"
  | JObj "(string \<times> json) list"

text \<open>
  The exceptions the handlers can meet. The first four are
  \<open>requests.exceptions.RequestException\<close> or subclasses of it (a refused connection and a
  failed name lookup are \<open>ConnectionError\<close>, a response cut short is
  \<open>ChunkedEncodingError\<close>); \<open>KeyboardInterrupt\<close> stands for the exceptions that derive
  from \<open>BaseException\<close> only, which \<open>except Exception\<close> lets through and a bare
  \<open>except:\<close> catches. \<open>JSONDecodeError\<close> is what \<open>response.json()\<close> raises, always
  outside the \<open>try\<close> of \<open>make_api_request\<close>, and \<open>AttributeError\<close> is what
  \<open>.get\<close> raises on a value that is not a dict.
\<close>

datatype exc =
    ConnectionError
  | Timeout
  | ChunkedEncodingError
  | OtherRequestException
  | ValueError
  | AttributeError
  | JSONDecodeError
  | OtherException
  | KeyboardInterrupt

fun is_RequestException :: "exc \<Rightarrow> bool" where
  "is_RequestException ConnectionError = True"
| "is_RequestException Timeout = True"
| "is_RequestException ChunkedEncodingError = True"
| "is_RequestException OtherRequestException = True"
| "is_RequestException _ = False"

fun is_Exception :: "exc \<Rightarrow> bool" where
  "is_Exception KeyboardInterrupt = False"
| "is_Exception _ = True"

text \<open>\<open>d.get(key, default)\<close>: only a dict has the method; on any other value the attribute
  lookup raises \<open>AttributeError\<close>.\<close>

fun dict_get :: "json \<Rightarrow> string \<Rightarrow> json \<Rightarrow> exc + json" where
  "dict_get (JObj items) key dflt =
     Inr (case map_of items key of Some v \<Rightarrow> v | None \<Rightarrow> dflt)"
| "dict_get _ key dflt = Inl AttributeError"

text \<open>How an f-string shows \<open>API_BASE_URL\<close>, which \<open>os.getenv\<close> leaves \<open>None\<close> when the
  variable is unset, and the same value as a template or JSON argument.\<close>

fun format_opt :: "string option \<Rightarrow> string" where
  "format_opt None = ''None''"
| "format_opt (Some s) = s"

fun json_opt :: "string option \<Rightarrow> json" where
  "json_opt None = JNull"
| "json_opt (Some s) = JStr s"

text \<open>How an f-string shows the non-negative integer of a \<open><int:user_id>\<close> path
  segment: its decimal digits.\<close>

fun format_nat :: "nat \<Rightarrow> string" where
  "format_nat n =
     (if n < 10 then [char_of (48 + n)]
      else format_nat (n div 10) @ [char_of (48 + n mod 10)])"

declare format_nat.simps [simp del]

subsection \<open>\<open>int(s)\<close> on a string\<close>

text \<open>
  \<open>int\<close> strips white space at both ends, takes one optional sign, and then wants decimal
  digits, where single underscores may stand between two digits. Anything else raises
  \<open>ValueError\<close>, here \<open>None\<close>. The characters are the ASCII ones; the digits and spaces
  of other scripts, and the limit on the number of digits of recent interpreters, are outside
  this model.
\<close>

definition is_space :: "char \<Rightarrow> bool" where
  "is_space c = ((9 \<le> (of_char c :: nat) \<and> (of_char c :: nat) \<le> 13)
               \<or> (28 \<le> (of_char c :: nat) \<and> (of_char c :: nat) \<le> 32))"

definition is_digit :: "char \<Rightarrow> bool" where
  "is_digit c = (48 \<le> (of_char c :: nat) \<and> (of_char c :: nat) \<le> 57)"

definition digit_val :: "char \<Rightarrow> int" where
  "digit_val c = int (of_char c) - 48"

definition strip :: "string \<Rightarrow> string" where
  "strip s = rev (dropWhile is_space (rev (dropWhile is_space s)))"

fun int_digits :: "int \<Rightarrow> string \<Rightarrow> int option" where
  "int_digits acc [] = Some acc"
| "int_digits acc [c] = (if is_digit c then Some (10 * acc + digit_val c) else None)"
| "int_digits acc (c # d # cs) =
     (if is_digit c then int_digits (10 * acc + digit_val c) (d # cs)
      else if c = CHR ''_'' \<and> is_digit d then int_digits (10 * acc + digit_val d) cs
      else None)"

definition int_unsigned :: "string \<Rightarrow> int option" where
  "int_unsigned s =
     (case s of
        [] \<Rightarrow> None
      | c # cs \<Rightarrow> if is_digit c then int_digits (digit_val c) cs else None)"

definition py_int :: "string \<Rightarrow> int option" where
  "py_int s =
     (case strip s of
        [] \<Rightarrow> None
      | c # cs \<Rightarrow>
          if c = CHR ''-'' then map_option uminus (int_unsigned cs)
          else if c = CHR ''+'' then int_unsigned cs
          else int_unsigned (c # cs))"

text \<open>The characters that can occur in a string that \<open>int\<close> accepts.\<close>

definition literal_char :: "char \<Rightarrow> bool" where
  "literal_char c = (is_digit c \<or> is_space c \<or> c = CHR ''+'' \<or> c = CHR ''-'' \<or> c = CHR ''_'')"

section \<open>The backend and the \<open>requests\<close> library\<close>

text \<open>The dict that both forms send: \<open>{'name': ..., 'email': ..., 'age': ...}\<close>.\<close>

record user_data =
  name :: "string option"
  email :: "string option"
  age :: "int option"

text \<open>
  A \<open>requests.Response\<close>, as far as the handlers read it: the status code and the body,
  \<open>None\<close> when the body is not JSON, so that \<open>json()\<close> raises.
\<close>

record response =
  status_code :: int
  body :: "json option"

definition response_json :: "response \<Rightarrow> exc + json" where
  "response_json r = (case body r of None \<Rightarrow> Inl JSONDecodeError | Some v \<Rightarrow> Inr v)"

text \<open>
  The handlers test a response with \<open>if response\<close>. A \<open>Response\<close> defines its own truth
  value: \<open>Response.__bool__\<close> returns \<open>self.ok\<close>, and \<open>ok\<close> is false exactly when
  \<open>raise_for_status()\<close> raises, that is when \<open>400 <= status_code < 600\<close>. So a response
  with a client or server error status is falsy, as \<open>None\<close> is.
\<close>

definition ok :: "response \<Rightarrow> bool" where
  "ok r = (\<not> (400 \<le> status_code r \<and> status_code r < 600))"

fun truthy :: "response option \<Rightarrow> bool" where
  "truthy None = False"
| "truthy (Some r) = ok r"

text \<open>\<open>response and response.status_code == n\<close>.\<close>

fun status_is :: "response option \<Rightarrow> int \<Rightarrow> bool" where
  "status_is None n = False"
| "status_is (Some r) n = (ok r \<and> status_code r = n)"

text \<open>The plain reading of an outcome: a response arrived and its status is \<open>n\<close>.\<close>

fun has_status :: "response option \<Rightarrow> int \<Rightarrow> bool" where
  "has_status None n = False"
| "has_status (Some r) n = (status_code r = n)"

text \<open>
  One call of \<open>requests.get\<close>, \<open>post\<close>, \<open>put\<close> or \<open>delete\<close>: the method, the URL and
  the \<open>json=\<close> argument go out, a response comes back or an exception is raised. The
  network and the backend behind it are a parameter of every handler.
\<close>

type_synonym call = "string \<times> string \<times> user_data option"

type_synonym backend = "string \<Rightarrow> string \<Rightarrow> user_data option \<Rightarrow> exc + response"

section \<open>What a request changes, and what it answers\<close>

text \<open>
  A flashed message is a string. \<open>ErrorFmt v\<close> is the f-string \<open>f'Error: {v}'\<close>, whose
  argument is the default text or whatever the body's \<open>error\<close> field held. Its text is
  given where \<open>v\<close> is a string; how \<open>str\<close> shows the other values is left out, and the
  message then stays in its \<open>ErrorFmt\<close> form.
\<close>

datatype message = Plain string | ErrorFmt json

fun message_text :: "message \<Rightarrow> string option" where
  "message_text (Plain s) = Some s"
| "message_text (ErrorFmt (JStr s)) = Some (''Error: '' @ s)"
| "message_text (ErrorFmt _) = None"

record notification =
  message :: message
  category :: string

definition notification_text :: "notification \<Rightarrow> string option" where
  "notification_text n = message_text (message n)"

text \<open>The effects of a handler: the messages flashed into the session, oldest first, and
  the requests that went out to the backend, oldest first.\<close>

record world =
  flashes :: "notification list"
  sent :: "call list"

definition flash :: "message \<Rightarrow> string \<Rightarrow> world \<Rightarrow> world" where
  "flash m c w = w\<lparr>flashes := flashes w @ [\<lparr>message = m, category = c\<rparr>]\<rparr>"

text \<open>What a view function returns: \<open>render_template(name, **context)\<close>,
  \<open>redirect(url_for(endpoint))\<close> or \<open>jsonify(dict)\<close>.\<close>

datatype view =
    Render string "(string \<times> json) list"
  | Redirect string
  | Jsonify "(string \<times> json) list"

text \<open>\<open>request.method\<close> and \<open>request.form.get\<close>.\<close>

record request =
  req_method :: string
  form :: "string \<Rightarrow> string option"

section \<open>\<open>make_api_request\<close>\<close>

text \<open>
  \<open>send\<close> is the call of the \<open>requests\<close> function: it asks the backend and records what
  went out. \<open>GET\<close> and \<open>DELETE\<close> pass no \<open>json=\<close> argument. An unsupported method
  raises \<open>ValueError\<close> inside the \<open>try\<close>, which the \<open>except\<close> clause does not catch.
  The log line of the \<open>except\<close> branch is not part of the model.
\<close>

definition send :: "backend \<Rightarrow> string \<Rightarrow> string \<Rightarrow> user_data option \<Rightarrow> world
    \<Rightarrow> (exc + response) \<times> world" where
  "send net m url payload w = (net m url payload, w\<lparr>sent := sent w @ [(m, url, payload)]\<rparr>)"

definition make_api_request :: "string option \<Rightarrow> backend \<Rightarrow> string \<Rightarrow> string
    \<Rightarrow> user_data option \<Rightarrow> world \<Rightarrow> (exc + response option) \<times> world" where
  "make_api_request API_BASE_URL net meth endpoint data w =
     (let url = format_opt API_BASE_URL @ endpoint;
          (attempt, w') =
            (if meth = ''GET'' then send net ''GET'' url None w
             else if meth = ''POST'' then send net ''POST'' url data w
             else if meth = ''PUT'' then send net ''PUT'' url data w
             else if meth = ''DELETE'' then send net ''DELETE'' url None w
             else (Inl ValueError, w))
      in case attempt of
           Inr response \<Rightarrow> (Inr (Some response), w')
         | Inl e \<Rightarrow> if is_RequestException e then (Inr None, w') else (Inl e, w'))"

section \<open>The page handlers\<close>

type_synonym answer = "(exc + view) \<times> world"

subsection \<open>\<open>index\<close>\<close>

text \<open>The body of the \<open>try\<close>: the users to show, or the exception that left it.\<close>

definition load_users :: "string option \<Rightarrow> backend \<Rightarrow> world \<Rightarrow> (exc + json) \<times> world" where
  "load_users API_BASE_URL net w =
     (case make_api_request API_BASE_URL net ''GET'' ''/users'' None w of
        (Inl e, w') \<Rightarrow> (Inl e, w')
      | (Inr response, w') \<Rightarrow>
          (case response of
             Some r \<Rightarrow>
               if truthy response \<and> status_code r = 200 then
                 (case response_json r of
                    Inl e \<Rightarrow> (Inl e, w')
                  | Inr users_data \<Rightarrow> (dict_get users_data ''data'' (JArr []), w'))
               else (Inr (JArr []), flash (Plain ''Failed to load users from API'') ''error'' w')
           | None \<Rightarrow> (Inr (JArr []), flash (Plain ''Failed to load users from API'') ''error'' w')))"

definition index :: "string option \<Rightarrow> backend \<Rightarrow> world \<Rightarrow> answer" where
  "index API_BASE_URL net w =
     (case load_users API_BASE_URL net w of
        (Inr users, w') \<Rightarrow>
          (Inr (Render ''index.html'' [(''users'', users), (''api_url'', json_opt API_BASE_URL)]), w')
      | (Inl e, w') \<Rightarrow>
          if is_Exception e then
            (Inr (Render ''index.html''
                   [(''users'', JArr []), (''api_url'', json_opt API_BASE_URL)]),
             flash (Plain ''Error connecting to backend API'') ''error'' w')
          else (Inl e, w'))"

subsection \<open>The form fields of \<open>add_user\<close> and \<open>edit_user\<close>\<close>

text \<open>\<open>int(request.form.get('age')) if request.form.get('age') else None\<close>: a missing field
  is \<open>None\<close> and an empty one is the empty string, and both are falsy.\<close>

definition form_age :: "request \<Rightarrow> exc + int option" where
  "form_age req =
     (case form req ''age'' of
        None \<Rightarrow> Inr None
      | Some s \<Rightarrow>
          if s = [] then Inr None
          else (case py_int s of None \<Rightarrow> Inl ValueError | Some n \<Rightarrow> Inr (Some n)))"

definition form_user_data :: "request \<Rightarrow> exc + user_data" where
  "form_user_data req =
     (case form_age req of
        Inl e \<Rightarrow> Inl e
      | Inr a \<Rightarrow> Inr \<lparr>name = form req ''name'', email = form req ''email'', age = a\<rparr>)"

text \<open>The message of a failed submission: the default, replaced by the body's \<open>error\<close> field
  when \<open>if response\<close> holds and the \<open>try\<close> goes through; the bare \<open>except\<close> keeps the
  default.\<close>

definition error_message :: "response option \<Rightarrow> json \<Rightarrow> json" where
  "error_message response error_msg =
     (case response of
        None \<Rightarrow> error_msg
      | Some r \<Rightarrow>
          if truthy response then
            (case response_json r of
               Inl e \<Rightarrow> error_msg
             | Inr error_data \<Rightarrow>
                 (case dict_get error_data ''error'' error_msg of
                    Inl e \<Rightarrow> error_msg
                  | Inr v \<Rightarrow> v))
          else error_msg)"

text \<open>The plain reading of "the body's \<open>error\<close> field": there is a response, its body
  is a JSON object, and the object has the field.\<close>

fun error_field :: "response option \<Rightarrow> json option" where
  "error_field None = None"
| "error_field (Some r) =
     (case body r of Some (JObj entries) \<Rightarrow> map_of entries ''error'' | _ \<Rightarrow> None)"

subsection \<open>\<open>add_user\<close>\<close>

definition add_user :: "string option \<Rightarrow> backend \<Rightarrow> request \<Rightarrow> world \<Rightarrow> answer" where
  "add_user API_BASE_URL net req w =
     (if req_method req = ''POST'' then
        (case form_user_data req of
           Inl e \<Rightarrow> (Inl e, w)
         | Inr user_data \<Rightarrow>
             (case make_api_request API_BASE_URL net ''POST'' ''/users'' (Some user_data) w of
                (Inl e, w') \<Rightarrow> (Inl e, w')
              | (Inr response, w') \<Rightarrow>
                  if status_is response 201 then
                    (Inr (Redirect ''index''),
                     flash (Plain (''User created successfully! ''
                                   @ [CHR 0xF0, CHR 0x9F, CHR 0x8E, CHR 0x89])) ''success'' w')
                  else
                    (Inr (Render ''add_user.html'' []),
                     flash (ErrorFmt (error_message response (JStr ''Failed to create user'')))
                       ''error'' w')))
      else (Inr (Render ''add_user.html'' []), w))"

subsection \<open>\<open>edit_user\<close>\<close>

text \<open>The second half of the function, which a \<open>GET\<close> runs alone and a failed \<open>POST\<close>
  falls into: fetch the user and show the form, or flash and go back to the list.\<close>

definition edit_form :: "string option \<Rightarrow> backend \<Rightarrow> nat \<Rightarrow> world \<Rightarrow> answer" where
  "edit_form API_BASE_URL net user_id w =
     (case make_api_request API_BASE_URL net ''GET'' (''/users/'' @ format_nat user_id) None w of
        (Inl e, w') \<Rightarrow> (Inl e, w')
      | (Inr response, w') \<Rightarrow>
          (case response of
             Some r \<Rightarrow>
               if truthy response \<and> status_code r = 200 then
                 (case response_json r of
                    Inl e \<Rightarrow> (Inl e, w')
                  | Inr user_data \<Rightarrow>
                      (case dict_get user_data ''data'' JNull of
                         Inl e \<Rightarrow> (Inl e, w')
                       | Inr user \<Rightarrow> (Inr (Render ''edit_user.html'' [(''user'', user)]), w')))
               else (Inr (Redirect ''index''), flash (Plain ''User not found'') ''error'' w')
           | None \<Rightarrow> (Inr (Redirect ''index''), flash (Plain ''User not found'') ''error'' w')))"

definition edit_user :: "string option \<Rightarrow> backend \<Rightarrow> request \<Rightarrow> nat \<Rightarrow> world \<Rightarrow> answer" where
  "edit_user API_BASE_URL net req user_id w =
     (if req_method req = ''POST'' then
        (case form_user_data req of
           Inl e \<Rightarrow> (Inl e, w)
         | Inr user_data \<Rightarrow>
             (case make_api_request API_BASE_URL net ''PUT'' (''/users/'' @ format_nat user_id)
                     (Some user_data) w of
                (Inl e, w') \<Rightarrow> (Inl e, w')
              | (Inr response, w') \<Rightarrow>
                  if status_is response 200 then
                    (Inr (Redirect ''index''),
                     flash (Plain (''User updated successfully! ''
                                   @ [CHR 0xE2, CHR 0x9C, CHR 0x85])) ''success'' w')
                  else
                    edit_form API_BASE_URL net user_id
                      (flash (ErrorFmt (error_message response (JStr ''Failed to update user'')))
                         ''error'' w')))
      else edit_form API_BASE_URL net user_id w)"

subsection \<open>\<open>delete_user\<close>\<close>

definition delete_user :: "string option \<Rightarrow> backend \<Rightarrow> nat \<Rightarrow> world \<Rightarrow> answer" where
  "delete_user API_BASE_URL net user_id w =
     (case make_api_request API_BASE_URL net ''DELETE'' (''/users/'' @ format_nat user_id) None w of
        (Inl e, w') \<Rightarrow> (Inl e, w')
      | (Inr response, w') \<Rightarrow>
          if status_is response 200 then
            (Inr (Redirect ''index''),
             flash (Plain (''User deleted successfully! ''
                           @ [CHR 0xF0, CHR 0x9F, CHR 0x97, CHR 0x91, CHR 0xEF, CHR 0xB8, CHR 0x8F]))
               ''success'' w')
          else (Inr (Redirect ''index''), flash (Plain ''Failed to delete user'') ''error'' w'))"

subsection \<open>\<open>health_check\<close>\<close>

text \<open>The bare \<open>except\<close> catches whatever \<open>make_api_request\<close> raises.\<close>

definition health_check :: "string option \<Rightarrow> backend \<Rightarrow> world \<Rightarrow> answer" where
  "health_check API_BASE_URL net w =
     (case make_api_request API_BASE_URL net ''GET'' ''/'' None w of
        (Inl e, w') \<Rightarrow>
          (Inr (Jsonify [(''frontend'', JStr ''healthy''), (''backend'', JStr ''unreachable''),
                         (''api_url'', json_opt API_BASE_URL)]), w')
      | (Inr response, w') \<Rightarrow>
          (Inr (Jsonify [(''frontend'', JStr ''healthy''),
                         (''backend'', JStr (if status_is response 200 then ''healthy''
                                             else ''unhealthy'')),
                         (''api_url'', json_opt API_BASE_URL)]), w'))"

section \<open>Backends and requests for the examples\<close>

text \<open>A backend that answers every call alike, and one that answers by method (a refused
  connection for a method it does not list).\<close>

definition always :: "exc + response \<Rightarrow> backend" where
  "always out m url payload = out"

definition by_method :: "(string \<times> (exc + response)) list \<Rightarrow> backend" where
  "by_method table m url payload =
     (case map_of table m of Some out \<Rightarrow> out | None \<Rightarrow> Inl ConnectionError)"

definition fresh :: world where
  "fresh = \<lparr>flashes = [], sent = []\<rparr>"

definition post_form :: "(string \<times> string) list \<Rightarrow> request" where
  "post_form entries = \<lparr>req_method = ''POST'', form = map_of entries\<rparr>"

section \<open>Facts about the adapter\<close>

text \<open>Neither 200 nor 201 is an error status, so for them the truth value of the response
  adds nothing to the comparison of the status.\<close>

lemma status_is_200: "status_is response 200 = has_status response 200"
  by (cases response) (auto simp: ok_def)

lemma status_is_201: "status_is response 201 = has_status response 201"
  by (cases response) (auto simp: ok_def)

lemma adapter_keeps_flashes:
  "flashes (snd (make_api_request base net meth endpoint data w)) = flashes w"
  by (simp add: make_api_request_def send_def Let_def split: sum.splits)

lemma adapter_result:
  assumes "fst (make_api_request base net meth endpoint data w) = res"
  obtains w' where "make_api_request base net meth endpoint data w = (res, w')"
    and "flashes w' = flashes w"
  using assms adapter_keeps_flashes [of base net meth endpoint data w]
  by (cases "make_api_request base net meth endpoint data w") auto

lemma always_adapter_GET:
  "make_api_request base (always out) ''GET'' endpoint data w =
     (case out of
        Inr r \<Rightarrow> Inr (Some r)
      | Inl e \<Rightarrow> if is_RequestException e then Inr None else Inl e,
      w\<lparr>sent := sent w @ [(''GET'', format_opt base @ endpoint, None)]\<rparr>)"
  by (simp add: make_api_request_def send_def always_def split: sum.splits)

lemma adapter_fst_any_world:
  "fst (make_api_request base net meth endpoint data w) =
   fst (make_api_request base net meth endpoint data w')"
  by (simp add: make_api_request_def send_def Let_def split: sum.splits)


lemma always_adapter:
  "meth \<in> {''GET'', ''DELETE''} \<Longrightarrow>
   make_api_request base (always out) meth endpoint data w =
     (case out of
        Inr r \<Rightarrow> Inr (Some r)
      | Inl e \<Rightarrow> if is_RequestException e then Inr None else Inl e,
      w\<lparr>sent := sent w @ [(meth, format_opt base @ endpoint, None)]\<rparr>)"
  "meth \<in> {''POST'', ''PUT''} \<Longrightarrow>
   make_api_request base (always out) meth endpoint data w =
     (case out of
        Inr r \<Rightarrow> Inr (Some r)
      | Inl e \<Rightarrow> if is_RequestException e then Inr None else Inl e,
      w\<lparr>sent := sent w @ [(meth, format_opt base @ endpoint, data)]\<rparr>)"
  by (auto simp add: make_api_request_def send_def always_def split: sum.splits)

lemma by_method_adapter:
  "meth \<in> {''GET'', ''DELETE''} \<Longrightarrow>
   make_api_request base (by_method table) meth endpoint data w =
     (case (case map_of table meth of Some out \<Rightarrow> out | None \<Rightarrow> Inl ConnectionError) of
        Inr r \<Rightarrow> Inr (Some r)
      | Inl e \<Rightarrow> if is_RequestException e then Inr None else Inl e,
      w\<lparr>sent := sent w @ [(meth, format_opt base @ endpoint, None)]\<rparr>)"
  "meth \<in> {''POST'', ''PUT''} \<Longrightarrow>
   make_api_request base (by_method table) meth endpoint data w =
     (case (case map_of table meth of Some out \<Rightarrow> out | None \<Rightarrow> Inl ConnectionError) of
        Inr r \<Rightarrow> Inr (Some r)
      | Inl e \<Rightarrow> if is_RequestException e then Inr None else Inl e,
      w\<lparr>sent := sent w @ [(meth, format_opt base @ endpoint, data)]\<rparr>)"
  by (auto simp add: make_api_request_def send_def by_method_def split: sum.splits)


lemma flash_flashes: "flashes (flash m c w) = flashes w @ [\<lparr>message = m, category = c\<rparr>]"
  by (simp add: flash_def)

lemma post_form_method: "req_method (post_form entries) = ''POST''"
  by (simp add: post_form_def)

lemma form_alice:
  "form_user_data (post_form [(''name'', ''Alice''), (''email'', ''alice@example.com''), (''age'', ''30'')])
     = Inr \<lparr>name = Some ''Alice'', email = Some ''alice@example.com'', age = Some 30\<rparr>"
  by (simp add: post_form_def form_user_data_def form_age_def py_int_def strip_def
      is_space_def is_digit_def digit_val_def int_unsigned_def)

section \<open>Facts about \<open>int\<close>\<close>

text \<open>A string with a character that is no digit, space, sign or underscore is rejected.\<close>

lemma int_digits_rejects:
  "c \<in> set cs \<Longrightarrow> \<not> is_digit c \<Longrightarrow> c \<noteq> CHR ''_'' \<Longrightarrow> int_digits acc cs = None"
  by (induction acc cs rule: int_digits.induct) auto

lemma int_unsigned_rejects:
  "c \<in> set cs \<Longrightarrow> \<not> is_digit c \<Longrightarrow> c \<noteq> CHR ''_'' \<Longrightarrow> int_unsigned cs = None"
  by (cases cs) (auto simp add: int_unsigned_def int_digits_rejects)

lemma dropWhile_keeps: "c \<in> set cs \<Longrightarrow> \<not> P c \<Longrightarrow> c \<in> set (dropWhile P cs)"
  by (induction cs) auto

lemma strip_keeps: "c \<in> set s \<Longrightarrow> \<not> is_space c \<Longrightarrow> c \<in> set (strip s)"
  by (simp add: strip_def dropWhile_keeps)

lemma py_int_rejects:
  assumes "c \<in> set s" and "\<not> literal_char c"
  shows "py_int s = None"
proof -
  from assms have c: "\<not> is_digit c" "\<not> is_space c" "c \<noteq> CHR ''+''" "c \<noteq> CHR ''-''" "c \<noteq> CHR ''_''"
    by (auto simp add: literal_char_def)
  with assms(1) have mem: "c \<in> set (strip s)"
    by (simp add: strip_keeps)
  show ?thesis
  proof (cases "strip s")
    case Nil
    then show ?thesis by (simp add: py_int_def)
  next
    case (Cons d ds)
    show ?thesis
    proof (cases "d = CHR ''-'' \<or> d = CHR ''+''")
      case True
      with mem Cons c have "c \<in> set ds" by auto
      then have "int_unsigned ds = None"
        using c by (simp add: int_unsigned_rejects)
      with True Cons show ?thesis by (auto simp add: py_int_def)
    next
      case False
      from mem Cons have "c \<in> set (d # ds)" by simp
      then have "int_unsigned (d # ds) = None"
        using c(1,5) by (rule int_unsigned_rejects)
      with False Cons show ?thesis by (simp add: py_int_def)
    qed
  qed
qed


section \<open>Facts about the form handlers\<close>






lemma error_message_cases:
  "error_message response d = d \<or> error_field response = Some (error_message response d)"
  by (cases response)
     (auto simp add: error_message_def response_json_def
           split: option.splits json.splits sum.splits)

lemma error_message_default:
  "error_field response = None \<Longrightarrow> error_message response d = d"
  using error_message_cases [of response d] by auto

text \<open>A response with a client or server error status is falsy, so \<open>if response\<close> skips
  the reading of its body.\<close>

lemma error_message_falsy:
  "400 \<le> status_code r \<Longrightarrow> status_code r < 600 \<Longrightarrow> error_message (Some r) d = d"
  by (simp add: error_message_def ok_def)

lemma edit_form_missing:
  assumes "fst (make_api_request base net ''GET'' (''/users/'' @ format_nat user_id) None w)
             = Inr refetched"
    and "\<not> has_status refetched 200"
  shows "fst (edit_form base net user_id w) = Inr (Redirect ''index'')
       \<and> flashes (snd (edit_form base net user_id w)) =
           flashes w @ [\<lparr>message = Plain ''User not found'', category = ''error''\<rparr>]"
proof -
  from assms(1) obtain w'
    where call: "make_api_request base net ''GET'' (''/users/'' @ format_nat user_id) None w
                   = (Inr refetched, w')"
      and keep: "flashes w' = flashes w"
    by (rule adapter_result)
  from call assms(2) show ?thesis
    by (cases refetched) (simp_all add: edit_form_def flash_flashes keep)
qed

lemma edit_form_found:
  assumes "fst (make_api_request base net ''GET'' (''/users/'' @ format_nat user_id) None w)
             = Inr (Some r)"
    and "status_code r = 200"
    and "body r = Some (JObj entries)"
  shows "fst (edit_form base net user_id w) =
           Inr (Render ''edit_user.html''
                 [(''user'', case map_of entries ''data'' of Some u \<Rightarrow> u | None \<Rightarrow> JNull)])
       \<and> flashes (snd (edit_form base net user_id w)) = flashes w"
proof -
  from assms(1) obtain w'
    where call: "make_api_request base net ''GET'' (''/users/'' @ format_nat user_id) None w
                   = (Inr (Some r), w')"
      and keep: "flashes w' = flashes w"
    by (rule adapter_result)
  from call assms(2,3) show ?thesis
    by (simp add: edit_form_def ok_def response_json_def keep)
qed

text \<open>The \<open>backend\<close> field of the health report, for every backend.\<close>

lemma health_check_backend:
  "fst (health_check base net w) =
     Inr (Jsonify
       [(''frontend'', JStr ''healthy''),
        (''backend'', JStr
           (case fst (make_api_request base net ''GET'' ''/'' None w) of
              Inl e \<Rightarrow> ''unreachable''
            | Inr response \<Rightarrow> if has_status response 200 then ''healthy'' else ''unhealthy'')),
        (''api_url'', json_opt base)])"
  by (cases "make_api_request base net ''GET'' ''/'' None w")
     (auto simp add: health_check_def status_is_200 split: sum.splits)

section \<open>The list page\<close>

text \<open>
  C3. Whenever the adapter's \<open>GET /users\<close> comes back with no response or with a status
  other than 200, \<open>index\<close> renders the list page with an empty list of users and flashes
  exactly one message, of category \<open>error\<close>.
\<close>

theorem index_failure:
  assumes "fst (make_api_request base net ''GET'' ''/users'' None w) = Inr response"
    and "\<not> has_status response 200"
  shows "fst (index base net w) =
           Inr (Render ''index.html'' [(''users'', JArr []), (''api_url'', json_opt base)])
       \<and> flashes (snd (index base net w)) =
           flashes w @ [\<lparr>message = Plain ''Failed to load users from API'',
                          category = ''error''\<rparr>]"
proof -
  from assms(1) obtain w'
    where call: "make_api_request base net ''GET'' ''/users'' None w = (Inr response, w')"
      and keep: "flashes w' = flashes w"
    by (rule adapter_result)
  from assms(2) have "load_users base net w =
      (Inr (JArr []), flash (Plain ''Failed to load users from API'') ''error'' w')"
    by (cases response) (simp_all add: load_users_def call)
  then show ?thesis
    by (simp add: index_def flash_def keep)
qed

theorem index_failure_witness:
  "fst (index (Some ''http://api'') (always (Inl Timeout)) fresh) =
     Inr (Render ''index.html'' [(''users'', JArr []), (''api_url'', JStr ''http://api'')])
   \<and> flashes (snd (index (Some ''http://api'') (always (Inl Timeout)) fresh)) =
     [\<lparr>message = Plain ''Failed to load users from API'', category = ''error''\<rparr>]"
  using index_failure [of "Some ''http://api''" "always (Inl Timeout)" fresh None]
  by (simp add: always_adapter_GET fresh_def)

text \<open>
  C8. When \<open>GET /users\<close> answers 200 with a JSON object whose \<open>data\<close> field is an array,
  \<open>index\<close> renders the list page with that array as \<open>users\<close>, element for element in the
  order received, and flashes nothing.
\<close>

theorem index_success:
  assumes "fst (make_api_request base net ''GET'' ''/users'' None w) = Inr (Some r)"
    and "status_code r = 200"
    and "body r = Some (JObj entries)"
    and "map_of entries ''data'' = Some (JArr records)"
  shows "fst (index base net w) =
           Inr (Render ''index.html'' [(''users'', JArr records), (''api_url'', json_opt base)])
       \<and> flashes (snd (index base net w)) = flashes w"
proof -
  from assms(1) obtain w'
    where call: "make_api_request base net ''GET'' ''/users'' None w = (Inr (Some r), w')"
      and keep: "flashes w' = flashes w"
    by (rule adapter_result)
  have "load_users base net w = (Inr (JArr records), w')"
    using assms(2-4) by (simp add: load_users_def call ok_def response_json_def)
  then show ?thesis
    by (simp add: index_def keep)
qed

theorem index_success_witness:
  "fst (index (Some ''http://api'')
          (always (Inr \<lparr>status_code = 200,
             body = Some (JObj [(''data'',
                      JArr [JObj [(''id'', JInt 2)], JObj [(''id'', JInt 1)]])])\<rparr>)) fresh) =
     Inr (Render ''index.html''
           [(''users'', JArr [JObj [(''id'', JInt 2)], JObj [(''id'', JInt 1)]]),
            (''api_url'', JStr ''http://api'')])
   \<and> flashes (snd (index (Some ''http://api'')
          (always (Inr \<lparr>status_code = 200,
             body = Some (JObj [(''data'',
                      JArr [JObj [(''id'', JInt 2)], JObj [(''id'', JInt 1)]])])\<rparr>)) fresh)) = []"
  using index_success [of "Some ''http://api''"
      "always (Inr \<lparr>status_code = 200,
         body = Some (JObj [(''data'', JArr [JObj [(''id'', JInt 2)], JObj [(''id'', JInt 1)]])])\<rparr>)"
      fresh
      "\<lparr>status_code = 200,
         body = Some (JObj [(''data'', JArr [JObj [(''id'', JInt 2)], JObj [(''id'', JInt 1)]])])\<rparr>"
      "[(''data'', JArr [JObj [(''id'', JInt 2)], JObj [(''id'', JInt 1)]])]"
      "[JObj [(''id'', JInt 2)], JObj [(''id'', JInt 1)]]"]
  by (simp add: always_adapter_GET fresh_def)




section \<open>The adapter\<close>

text \<open>
  C6. For each of the four supported methods, when the call of \<open>requests\<close> raises a
  \<open>RequestException\<close> (a refused connection, a timeout, a failed name lookup, a
  response that cannot be read), \<open>make_api_request\<close> returns \<open>None\<close>: it does not
  raise.
\<close>

theorem adapter_network_failure:
  assumes "meth \<in> {''GET'', ''POST'', ''PUT'', ''DELETE''}"
    and "net meth (format_opt base @ endpoint)
           (if meth = ''POST'' \<or> meth = ''PUT'' then data else None) = Inl e"
    and "is_RequestException e"
  shows "fst (make_api_request base net meth endpoint data w) = Inr None"
  using assms by (auto simp add: make_api_request_def send_def)

theorem adapter_network_failure_witness:
  "fst (make_api_request (Some ''http://api'') (always (Inl ConnectionError)) ''PUT'' ''/users/7''
          (Some \<lparr>name = Some ''Alice'', email = None, age = None\<rparr>) fresh) = Inr None"
  using adapter_network_failure [of "''PUT''" "always (Inl ConnectionError)" "Some ''http://api''"
      "''/users/7''" "Some \<lparr>name = Some ''Alice'', email = None, age = None\<rparr>" ConnectionError fresh]
  by (simp add: always_def)

section \<open>Deleting a user\<close>

text \<open>
  C7. Whatever the adapter's \<open>DELETE /users/{id}\<close> returns (a 200, another status, or no
  response), \<open>delete_user\<close> redirects to the list route and flashes exactly one message:
  of category \<open>success\<close> when the status is 200 and of category \<open>error\<close> otherwise.
\<close>

theorem delete_always_redirects:
  assumes "fst (make_api_request base net ''DELETE'' (''/users/'' @ format_nat user_id) None w)
             = Inr response"
  shows "fst (delete_user base net user_id w) = Inr (Redirect ''index'')
       \<and> flashes (snd (delete_user base net user_id w)) =
           flashes w @
           [if has_status response 200
            then \<lparr>message = Plain (''User deleted successfully! ''
                     @ [CHR 0xF0, CHR 0x9F, CHR 0x97, CHR 0x91, CHR 0xEF, CHR 0xB8, CHR 0x8F]),
                  category = ''success''\<rparr>
            else \<lparr>message = Plain ''Failed to delete user'', category = ''error''\<rparr>]"
proof -
  from assms obtain w'
    where call: "make_api_request base net ''DELETE'' (''/users/'' @ format_nat user_id) None w
                   = (Inr response, w')"
      and keep: "flashes w' = flashes w"
    by (rule adapter_result)
  from call show ?thesis
    by (simp add: delete_user_def status_is_200 flash_def keep)
qed

theorem delete_always_redirects_witness:
  "fst (delete_user (Some ''http://api'') (always (Inr \<lparr>status_code = 404, body = None\<rparr>)) 12 fresh)
     = Inr (Redirect ''index'')
   \<and> flashes (snd (delete_user (Some ''http://api'')
        (always (Inr \<lparr>status_code = 404, body = None\<rparr>)) 12 fresh)) =
       [\<lparr>message = Plain ''Failed to delete user'', category = ''error''\<rparr>]"
  using delete_always_redirects [of "Some ''http://api''"
      "always (Inr \<lparr>status_code = 404, body = None\<rparr>)" 12 fresh
      "Some \<lparr>status_code = 404, body = None\<rparr>"]
  by (simp add: always_adapter fresh_def format_nat.simps)

section \<open>Creating a user\<close>

text \<open>
  C10. When a creation form is submitted and the adapter's \<open>POST /users\<close> returns no
  response or a status other than 201, \<open>add_user\<close> renders \<open>add_user.html\<close> with an
  empty context: none of the submitted fields goes back into the form.
\<close>

theorem add_user_failure_no_context:
  assumes "req_method req = ''POST''"
    and "form_user_data req = Inr ud"
    and "fst (make_api_request base net ''POST'' ''/users'' (Some ud) w) = Inr response"
    and "\<not> has_status response 201"
  shows "fst (add_user base net req w) = Inr (Render ''add_user.html'' [])"
proof -
  from assms(3) obtain w'
    where call: "make_api_request base net ''POST'' ''/users'' (Some ud) w = (Inr response, w')"
    by (rule adapter_result)
  show ?thesis
    using assms(1,2,4) by (simp add: add_user_def call status_is_201)
qed

theorem add_user_failure_no_context_witness:
  "fst (add_user (Some ''http://api'') (always (Inr \<lparr>status_code = 500, body = None\<rparr>))
         (post_form [(''name'', ''Alice''), (''email'', ''alice@example.com''), (''age'', ''30'')])
         fresh) = Inr (Render ''add_user.html'' [])"
  using add_user_failure_no_context [of
      "post_form [(''name'', ''Alice''), (''email'', ''alice@example.com''), (''age'', ''30'')]"
      "\<lparr>name = Some ''Alice'', email = Some ''alice@example.com'', age = Some 30\<rparr>"
      "Some ''http://api''" "always (Inr \<lparr>status_code = 500, body = None\<rparr>)" fresh
      "Some \<lparr>status_code = 500, body = None\<rparr>"]
  by (simp add: always_adapter post_form_def form_user_data_def form_age_def py_int_def strip_def
      is_space_def is_digit_def digit_val_def int_unsigned_def)

section \<open>The \<open>age\<close> field\<close>



section \<open>Editing a user\<close>

text \<open>
  C2, as the code has it. When an edit form is submitted and the adapter's
  \<open>PUT /users/{id}\<close> returns no response or a status other than 200, \<open>edit_user\<close>
  flashes one error message for the failure, \<open>Error:\<close> followed by the default text or by
  the body's \<open>error\<close> field (the default whenever there is no such field), and then
  fetches the user again. When \<open>GET /users/{id}\<close> answers 200 with a JSON object, the edit
  form is rendered with its \<open>data\<close> field and nothing more is flashed; when it returns no
  response or another status, a second error message, \<open>User not found\<close>, is flashed and
  the answer is a redirect to the list route.
\<close>

theorem edit_submit_failure:
  assumes "req_method req = ''POST''"
    and "form_user_data req = Inr ud"
    and "fst (make_api_request base net ''PUT'' (''/users/'' @ format_nat user_id) (Some ud) w)
           = Inr response"
    and "\<not> has_status response 200"
    and "fst (make_api_request base net ''GET'' (''/users/'' @ format_nat user_id) None w)
           = Inr refetched"
  shows "(error_message response (JStr ''Failed to update user'') = JStr ''Failed to update user''
          \<or> error_field response = Some (error_message response (JStr ''Failed to update user'')))
       \<and> (error_field response = None \<longrightarrow>
            error_message response (JStr ''Failed to update user'') = JStr ''Failed to update user'')
       \<and> (\<forall>r entries. refetched = Some r \<and> status_code r = 200 \<and> body r = Some (JObj entries) \<longrightarrow>
            fst (edit_user base net req user_id w) =
              Inr (Render ''edit_user.html''
                    [(''user'', case map_of entries ''data'' of Some u \<Rightarrow> u | None \<Rightarrow> JNull)])
          \<and> flashes (snd (edit_user base net req user_id w)) =
              flashes w @
              [\<lparr>message = ErrorFmt (error_message response (JStr ''Failed to update user'')),
                category = ''error''\<rparr>])
       \<and> (\<not> has_status refetched 200 \<longrightarrow>
            fst (edit_user base net req user_id w) = Inr (Redirect ''index'')
          \<and> flashes (snd (edit_user base net req user_id w)) =
              flashes w @
              [\<lparr>message = ErrorFmt (error_message response (JStr ''Failed to update user'')),
                category = ''error''\<rparr>,
               \<lparr>message = Plain ''User not found'', category = ''error''\<rparr>])"
proof -
  define m where "m = error_message response (JStr ''Failed to update user'')"
  from assms(3) obtain w1
    where put: "make_api_request base net ''PUT'' (''/users/'' @ format_nat user_id) (Some ud) w
                  = (Inr response, w1)"
      and keep: "flashes w1 = flashes w"
    by (rule adapter_result)
  define w2 where "w2 = flash (ErrorFmt m) ''error'' w1"
  have w2: "flashes w2 = flashes w @ [\<lparr>message = ErrorFmt m, category = ''error''\<rparr>]"
    by (simp add: w2_def flash_flashes keep)
  from put assms(1,2,4) have step: "edit_user base net req user_id w = edit_form base net user_id w2"
    by (simp add: edit_user_def status_is_200 w2_def m_def)
  have get: "fst (make_api_request base net ''GET'' (''/users/'' @ format_nat user_id) None w2)
               = Inr refetched"
    using assms(5) adapter_fst_any_world [of base net "''GET''" "''/users/'' @ format_nat user_id" None w2 w]
    by simp
  have found: "fst (edit_user base net req user_id w) =
        Inr (Render ''edit_user.html''
              [(''user'', case map_of entries ''data'' of Some u \<Rightarrow> u | None \<Rightarrow> JNull)])
      \<and> flashes (snd (edit_user base net req user_id w)) =
          flashes w @ [\<lparr>message = ErrorFmt m, category = ''error''\<rparr>]"
    if "refetched = Some r \<and> status_code r = 200 \<and> body r = Some (JObj entries)" for r entries
    using that get edit_form_found [of base net user_id w2 r entries] step w2 by simp
  have missing: "fst (edit_user base net req user_id w) = Inr (Redirect ''index'')
      \<and> flashes (snd (edit_user base net req user_id w)) =
          flashes w @ [\<lparr>message = ErrorFmt m, category = ''error''\<rparr>,
                       \<lparr>message = Plain ''User not found'', category = ''error''\<rparr>]"
    if "\<not> has_status refetched 200"
    using that get edit_form_missing [of base net user_id w2 refetched] step w2 by simp
  show ?thesis
    unfolding m_def [symmetric]
    using error_message_cases [of response "JStr ''Failed to update user''"]
      error_message_default [of response "JStr ''Failed to update user''"] found missing
    unfolding m_def [symmetric]
    by blast
qed

theorem edit_submit_failure_witness:
  "fst (edit_user (Some ''http://api'')
          (by_method [(''GET'', Inr \<lparr>status_code = 200,
                         body = Some (JObj [(''data'', JObj [(''id'', JInt 7), (''name'', JStr ''Alice'')])])\<rparr>)])
          (post_form [(''name'', ''Alice''), (''email'', ''alice@example.com''), (''age'', ''30'')])
          7 fresh) =
     Inr (Render ''edit_user.html'' [(''user'', JObj [(''id'', JInt 7), (''name'', JStr ''Alice'')])])
   \<and> flashes (snd (edit_user (Some ''http://api'')
          (by_method [(''GET'', Inr \<lparr>status_code = 200,
                         body = Some (JObj [(''data'', JObj [(''id'', JInt 7), (''name'', JStr ''Alice'')])])\<rparr>)])
          (post_form [(''name'', ''Alice''), (''email'', ''alice@example.com''), (''age'', ''30'')])
          7 fresh)) =
     [\<lparr>message = ErrorFmt (JStr ''Failed to update user''), category = ''error''\<rparr>]"
  using edit_submit_failure [of
      "post_form [(''name'', ''Alice''), (''email'', ''alice@example.com''), (''age'', ''30'')]"
      "\<lparr>name = Some ''Alice'', email = Some ''alice@example.com'', age = Some 30\<rparr>"
      "Some ''http://api''"
      "by_method [(''GET'', Inr \<lparr>status_code = 200,
                         body = Some (JObj [(''data'', JObj [(''id'', JInt 7), (''name'', JStr ''Alice'')])])\<rparr>)]"
      7 fresh None
      "Some \<lparr>status_code = 200,
              body = Some (JObj [(''data'', JObj [(''id'', JInt 7), (''name'', JStr ''Alice'')])])\<rparr>"]
  by (simp add: form_alice post_form_method by_method_adapter fresh_def error_message_def
      format_nat.simps)

text \<open>
  With the backend down, both the \<open>PUT\<close> and the \<open>GET\<close> that follows it come back
  without a response: the form is not rendered again, the answer is a redirect, and two error
  messages are flashed.
\<close>

theorem edit_submit_failure_counterexample:
  "fst (edit_user (Some ''http://api'') (always (Inl ConnectionError))
          (post_form [(''name'', ''Alice''), (''email'', ''alice@example.com''), (''age'', ''30'')])
          7 fresh) = Inr (Redirect ''index'')
   \<and> flashes (snd (edit_user (Some ''http://api'') (always (Inl ConnectionError))
          (post_form [(''name'', ''Alice''), (''email'', ''alice@example.com''), (''age'', ''30'')])
          7 fresh)) =
     [\<lparr>message = ErrorFmt (JStr ''Failed to update user''), category = ''error''\<rparr>,
      \<lparr>message = Plain ''User not found'', category = ''error''\<rparr>]"
  by (simp add: edit_user_def edit_form_def form_alice always_adapter error_message_def
      flash_def fresh_def post_form_method format_nat.simps)

section \<open>The health report\<close>

text \<open>
  C1. The health endpoint is to report \<open>unreachable\<close> when the call to the backend fails
  (a refused connection, a timeout, a failed name lookup). On a refused connection
  \<open>make_api_request\<close> has already caught the exception and returned \<open>None\<close>, so the
  \<open>except\<close> branch of \<open>health_check\<close> is not taken and the report says
  \<open>unhealthy\<close>.
\<close>

theorem health_check_connection_refused:
  "fst (health_check (Some ''http://api'') (always (Inl ConnectionError)) fresh) =
     Inr (Jsonify [(''frontend'', JStr ''healthy''), (''backend'', JStr ''unhealthy''),
                   (''api_url'', JStr ''http://api'')])"
  by (simp add: health_check_def always_adapter)

section \<open>A rejected creation\<close>

text \<open>
  C4. When the backend answers a creation with status 400 and the body
  \<open>{"error": "email already exists"}\<close>, the form is rendered again and one error message
  is flashed, but its text is the default one: a response with status 400 is falsy, so
  \<open>if response\<close> skips the reading of the body and the \<open>error\<close> field is never looked
  at.
\<close>

theorem add_user_duplicate_email:
  "fst (add_user (Some ''http://api'')
          (always (Inr \<lparr>status_code = 400,
                          body = Some (JObj [(''error'', JStr ''email already exists'')])\<rparr>))
          (post_form [(''name'', ''Alice''), (''email'', ''alice@example.com''), (''age'', ''30'')])
          fresh) = Inr (Render ''add_user.html'' [])
   \<and> map notification_text (flashes (snd (add_user (Some ''http://api'')
          (always (Inr \<lparr>status_code = 400,
                          body = Some (JObj [(''error'', JStr ''email already exists'')])\<rparr>))
          (post_form [(''name'', ''Alice''), (''email'', ''alice@example.com''), (''age'', ''30'')])
          fresh))) = [Some ''Error: Failed to create user'']"
  by (simp add: add_user_def form_alice always_adapter error_message_def ok_def
      flash_def fresh_def post_form_method notification_text_def)

end
